theory Spec2Isabelle
  imports Main
begin

section \<open>Values, objects and the heap\<close>

text \<open>
  \<open>extractFiles\<close> walks an arbitrary JavaScript value graph, and what is proved about it
  concerns identity: shared and cyclic references, newly allocated clones, an input that
  is not written to. The graph is therefore modelled with an explicit store: a value is a
  primitive or a reference, and the heap is the list of the allocated objects, addressed
  by position. An allocation appends to the heap, so the address of a new object is the
  length of the heap before.

  What the model leaves out: numbers are opaque leaves to the extractor and are modelled
  as integers; arrays are dense; the properties of a plain object are own enumerable data
  properties (no accessors), listed in the order in which \<open>for ... in\<close> enumerates
  them; the call stack is unbounded.
\<close>

type_synonym addr = nat

datatype val =
    JUndefined
  | JNull
  | JBool bool
  | JNum int
  | JStr string
  | JRef addr

datatype obj =
    ArrayObj "val list"
  | FileListObj "val list"
  | PlainObj bool "(string \<times> val) list"
      \<comment> \<open>what \<open>isPlainObject\<close> accepts; the flag is \<open>value instanceof Object\<close>
          (false for an object made by \<open>Object.create(null)\<close>)\<close>
  | FileObj string
      \<comment> \<open>a \<open>File\<close> with its \<open>name\<close>\<close>
  | BlobObj
  | FunctionObj
      \<comment> \<open>anything with \<open>typeof value === 'function'\<close>\<close>
  | OtherObj
      \<comment> \<open>any other object: a class instance, a \<open>Date\<close>, a \<open>Map\<close>, ...\<close>

type_synonym heap = "obj list"

definition heap_get :: "heap \<Rightarrow> addr \<Rightarrow> obj option" where
  "heap_get h a = (if a < length h then Some (h ! a) else None)"

text \<open>
  The globals a runtime may lack (\<open>typeof File !== 'undefined'\<close> and so on), and what a call
  of the function object at an address returns for an argument, read as a boolean. A
  classifier is a pure predicate of the value it is given: it neither throws nor writes.
\<close>

record runtime =
  has_File :: bool
  has_Blob :: bool
  has_FileList :: bool
  call :: "addr \<Rightarrow> val \<Rightarrow> bool"

section \<open>Number to string\<close>

text \<open>\<open>pathPrefix + index++\<close> and \<open>String(++i)\<close> print a non-negative integer in decimal.\<close>

definition digit :: "nat \<Rightarrow> char" where
  "digit d = char_of (48 + d)"

fun decimal :: "nat \<Rightarrow> string" where
  "decimal n = (if n < 10 then [digit n] else decimal (n div 10) @ [digit (n mod 10)])"

declare decimal.simps [simp del]

section \<open>isExtractableFile\<close>

text \<open>
  \<^verbatim>\<open>(typeof File !== 'undefined' && value instanceof File) ||
  (typeof Blob !== 'undefined' && value instanceof Blob)\<close>.
  \<open>File\<close> is a subclass of \<open>Blob\<close>.
\<close>

definition instanceof_File :: "heap \<Rightarrow> val \<Rightarrow> bool" where
  "instanceof_File h v =
     (case v of JRef a \<Rightarrow> (case heap_get h a of Some (FileObj _) \<Rightarrow> True | _ \<Rightarrow> False)
              | _ \<Rightarrow> False)"

definition instanceof_Blob :: "heap \<Rightarrow> val \<Rightarrow> bool" where
  "instanceof_Blob h v =
     (case v of JRef a \<Rightarrow> (case heap_get h a of Some (FileObj _) \<Rightarrow> True
                                              | Some BlobObj \<Rightarrow> True
                                              | _ \<Rightarrow> False)
              | _ \<Rightarrow> False)"

definition isExtractableFile :: "runtime \<Rightarrow> heap \<Rightarrow> val \<Rightarrow> bool" where
  "isExtractableFile rt h v =
     ((has_File rt \<and> instanceof_File h v) \<or> (has_Blob rt \<and> instanceof_Blob h v))"

section \<open>extractFiles\<close>

text \<open>
  The two tables of one call and the heap they live beside. \<open>clones\<close> is the
  \<open>Map<Cloneable, Clone>\<close> (both sides are object identities); \<open>files\<close> is the
  \<open>Map<Extractable, Array<ObjectPath>>\<close>, an association list because a \<open>Map\<close> iterates
  in insertion order. \<open>protos\<close> holds the prototypes that have been replaced since the
  objects were made: \<open>Some None\<close> is the prototype \<open>null\<close>, \<open>Some (Some r)\<close> the object at
  \<open>r\<close>, and an object without an entry has the prototype it was made with.
\<close>

type_synonym files_map = "(val \<times> string list) list"

record state =
  heap :: heap
  protos :: "addr \<rightharpoonup> addr option"
  clones :: "addr \<rightharpoonup> addr"
  files :: files_map

text \<open>
  How a call ends when it does not return: with a \<open>TypeError\<close> and its message, or at an
  assignment that the model cannot follow (\<open>Opaque\<close>, below).
\<close>

datatype error =
    TypeError string
  | Opaque

text \<open>
  \<^verbatim>\<open>const filePaths = files.get(value);
  if (filePaths) filePaths.push(path); else files.set(value, [path]);\<close>
\<close>

fun files_record :: "files_map \<Rightarrow> val \<Rightarrow> string \<Rightarrow> files_map" where
  "files_record [] file path = [(file, [path])]"
| "files_record ((g, paths) # rest) file path =
     (if g = file then (g, paths @ [path]) # rest
      else (g, paths) # files_record rest file path)"

text \<open>\<open>clone.push(itemClone)\<close> on the array at address \<open>c\<close>.\<close>

definition array_push :: "heap \<Rightarrow> addr \<Rightarrow> val \<Rightarrow> heap" where
  "array_push h c v =
     (case heap_get h c of
        Some (ArrayObj xs) \<Rightarrow> h[c := ArrayObj (xs @ [v])]
      | _ \<Rightarrow> h)"

text \<open>
  \<open>clone[key] = propertyClone\<close> is an assignment to a property of an ordinary object, and
  an assignment looks the key up along the prototype chain of the object before it
  writes. The prototype of an object is \<open>Object.prototype\<close> (for \<open>{}\<close>, and for \<open>[]\<close>
  behind \<open>Array.prototype\<close>), \<open>null\<close> (for \<open>Object.create(null)\<close>), or the object that the
  \<open>__proto__\<close> setter has put there. Of an object that is neither a plain object nor an
  array the model holds neither the properties nor the prototype. The plain objects and
  arrays that come to stand on a prototype chain are clones, which \<open>recurse\<close> has made
  by \<open>{}\<close>, \<open>Object.create(null)\<close> or \<open>[]\<close>: an assignment puts there what a recursive
  call has returned, and that is \<open>null\<close>, a clone, or a value that is not a container.
\<close>

datatype proto =
    ObjectPrototype
  | NullPrototype
  | ProtoAt addr
  | OpaquePrototype

definition getPrototypeOf :: "state \<Rightarrow> addr \<Rightarrow> proto" where
  "getPrototypeOf st a =
     (case protos st a of
        Some (Some r) \<Rightarrow> ProtoAt r
      | Some None \<Rightarrow> NullPrototype
      | None \<Rightarrow>
          (case heap_get (heap st) a of
             Some (PlainObj inst _) \<Rightarrow> if inst then ObjectPrototype else NullPrototype
           | Some (ArrayObj _) \<Rightarrow> ObjectPrototype
           | _ \<Rightarrow> OpaquePrototype))"

text \<open>The own properties of a plain object and of an array.\<close>

definition own_key :: "heap \<Rightarrow> addr \<Rightarrow> string \<Rightarrow> bool" where
  "own_key h a key =
     (case heap_get h a of
        Some (PlainObj _ props) \<Rightarrow> key \<in> set (map fst props)
      | Some (ArrayObj xs) \<Rightarrow> key = ''length'' \<or> key \<in> set (map decimal [0..<length xs])
      | _ \<Rightarrow> False)"

text \<open>
  What the assignment finds for the key, from the object at \<open>a\<close> upwards. The properties of
  the plain objects and arrays of the heap are writable data properties, and so are the
  properties with a string key of \<open>Object.prototype\<close> and \<open>Array.prototype\<close> as the language
  defines them, with one exception, the accessor \<open>__proto__\<close> of \<open>Object.prototype\<close>. So
  the assignment either writes a data property of the receiver (\<open>Data\<close>: the key is found
  as a data property, or not at all), or calls the \<open>__proto__\<close> setter (\<open>Setter\<close>), or
  depends on an object whose properties the model does not hold (\<open>Unknown\<close>: a setter or
  a read-only property there would decide). A prototype chain visits no object twice, so
  it is not longer than the heap, which bounds the search.
\<close>

datatype slot = Data | Setter | Unknown

fun lookup :: "nat \<Rightarrow> state \<Rightarrow> addr \<Rightarrow> string \<Rightarrow> slot" where
  "lookup 0 st a key = Unknown"
| "lookup (Suc n) st a key =
     (if own_key (heap st) a key then Data
      else
        (case getPrototypeOf st a of
           ObjectPrototype \<Rightarrow> if key = ''__proto__'' then Setter else Data
         | NullPrototype \<Rightarrow> Data
         | ProtoAt r \<Rightarrow> lookup n st r key
         | OpaquePrototype \<Rightarrow> Unknown))"

text \<open>
  The \<open>__proto__\<close> setter of \<open>Object.prototype\<close>, called on the object at \<open>c\<close> with the value
  \<open>v\<close>: a value that is neither an object nor \<open>null\<close> is ignored; otherwise \<open>v\<close> becomes the
  prototype of the object, unless the object is on the prototype chain of \<open>v\<close>, which is a
  \<open>TypeError\<close> (the message is the engine's; this is the one of V8). The chain of an
  object of unknown prototype is a chain of objects that were there before the call, so
  the clone is not on it.
\<close>

fun reaches :: "nat \<Rightarrow> state \<Rightarrow> addr \<Rightarrow> addr \<Rightarrow> bool" where
  "reaches 0 st p c = False"
| "reaches (Suc n) st p c =
     (p = c \<or> (case getPrototypeOf st p of ProtoAt r \<Rightarrow> reaches n st r c | _ \<Rightarrow> False))"

definition proto_setter :: "state \<Rightarrow> addr \<Rightarrow> val \<Rightarrow> error + state" where
  "proto_setter st c v =
     (case v of
        JNull \<Rightarrow> Inr (st\<lparr>protos := (protos st)(c \<mapsto> None)\<rparr>)
      | JRef r \<Rightarrow>
          if getPrototypeOf st c = ProtoAt r then Inr st
          else if reaches (length (heap st)) st r c then
            Inl (TypeError ''Cyclic __proto__ value'')
          else Inr (st\<lparr>protos := (protos st)(c \<mapsto> Some r)\<rparr>)
      | _ \<Rightarrow> Inr st)"

text \<open>
  \<open>clone[key] = propertyClone\<close> on the plain object at address \<open>c\<close>: an own property is
  overwritten in place, a new one is added last; the key \<open>__proto__\<close> of an object that
  inherits from \<open>Object.prototype\<close> goes to the setter and adds no property; and \<open>Opaque\<close>
  is the assignment whose effect an object outside the model decides.
\<close>

fun props_set :: "(string \<times> 'a) list \<Rightarrow> string \<Rightarrow> 'a \<Rightarrow> (string \<times> 'a) list" where
  "props_set [] key v = [(key, v)]"
| "props_set ((k, w) # rest) key v =
     (if k = key then (k, v) # rest else (k, w) # props_set rest key v)"

definition object_set :: "state \<Rightarrow> addr \<Rightarrow> string \<Rightarrow> val \<Rightarrow> error + state" where
  "object_set st c key v =
     (case heap_get (heap st) c of
        Some (PlainObj inst props) \<Rightarrow>
          (case lookup (length (heap st)) st c key of
             Data \<Rightarrow> Inr (st\<lparr>heap := (heap st)[c := PlainObj inst (props_set props key v)]\<rparr>)
           | Setter \<Rightarrow> proto_setter st c v
           | Unknown \<Rightarrow> Inl Opaque)
      | _ \<Rightarrow> Inl Opaque)"

text \<open>
  \<^verbatim>\<open>const valueIsList = Array.isArray(value) ||
    (typeof FileList !== 'undefined' && value instanceof FileList);\<close>
\<close>

definition valueIsList :: "runtime \<Rightarrow> heap \<Rightarrow> val \<Rightarrow> bool" where
  "valueIsList rt h v =
     (case v of
        JRef a \<Rightarrow> (case heap_get h a of
                     Some (ArrayObj _) \<Rightarrow> True
                   | Some (FileListObj _) \<Rightarrow> has_FileList rt
                   | _ \<Rightarrow> False)
      | _ \<Rightarrow> False)"

definition valueIsPlainObject :: "heap \<Rightarrow> val \<Rightarrow> bool" where
  "valueIsPlainObject h v =
     (case v of
        JRef a \<Rightarrow> (case heap_get h a of Some (PlainObj _ _) \<Rightarrow> True | _ \<Rightarrow> False)
      | _ \<Rightarrow> False)"

text \<open>What \<open>for (const item of value)\<close> and \<open>for (const key in value)\<close> iterate over.\<close>

definition items_of :: "heap \<Rightarrow> addr \<Rightarrow> val list" where
  "items_of h a =
     (case heap_get h a of
        Some (ArrayObj xs) \<Rightarrow> xs
      | Some (FileListObj xs) \<Rightarrow> xs
      | _ \<Rightarrow> [])"

definition props_of :: "heap \<Rightarrow> addr \<Rightarrow> (string \<times> val) list" where
  "props_of h a = (case heap_get h a of Some (PlainObj _ props) \<Rightarrow> props | _ \<Rightarrow> [])"

definition instanceof_Object :: "heap \<Rightarrow> addr \<Rightarrow> bool" where
  "instanceof_Object h a = (case heap_get h a of Some (PlainObj inst _) \<Rightarrow> inst | _ \<Rightarrow> True)"

text \<open>
  The two loops of \<open>recurse\<close>, over the recursive call \<open>rec\<close> they make. Each loop takes
  the elements (the properties) of the container it iterates over as they are when it
  starts; \<open>index\<close> is the counter of the first loop. An error of the recursive call or of
  the assignment ends the loop.
\<close>

fun recurse_items ::
  "(state \<Rightarrow> val \<Rightarrow> string \<Rightarrow> (error + val \<times> state) option) \<Rightarrow> bool \<Rightarrow> addr \<Rightarrow> string \<Rightarrow>
   nat \<Rightarrow> val list \<Rightarrow> state \<Rightarrow> (error + state) option" where
  "recurse_items rec uncloned clone pathPrefix index [] st = Some (Inr st)"
| "recurse_items rec uncloned clone pathPrefix index (item # items) st =
     (case rec st item (pathPrefix @ decimal index) of
        None \<Rightarrow> None
      | Some (Inl e) \<Rightarrow> Some (Inl e)
      | Some (Inr (itemClone, st')) \<Rightarrow>
          recurse_items rec uncloned clone pathPrefix (Suc index) items
            (if uncloned then st'\<lparr>heap := array_push (heap st') clone itemClone\<rparr> else st'))"

fun recurse_props ::
  "(state \<Rightarrow> val \<Rightarrow> string \<Rightarrow> (error + val \<times> state) option) \<Rightarrow> bool \<Rightarrow> addr \<Rightarrow> string \<Rightarrow>
   (string \<times> val) list \<Rightarrow> state \<Rightarrow> (error + state) option" where
  "recurse_props rec uncloned clone pathPrefix [] st = Some (Inr st)"
| "recurse_props rec uncloned clone pathPrefix ((key, v) # props) st =
     (case rec st v (pathPrefix @ key) of
        None \<Rightarrow> None
      | Some (Inl e) \<Rightarrow> Some (Inl e)
      | Some (Inr (propertyClone, st')) \<Rightarrow>
          if uncloned then
            (case object_set st' clone key propertyClone of
               Inl e \<Rightarrow> Some (Inl e)
             | Inr st'' \<Rightarrow> recurse_props rec uncloned clone pathPrefix props st'')
          else recurse_props rec uncloned clone pathPrefix props st')"

text \<open>
  \<open>recurse\<close>. The first argument bounds the depth of the recursion: \<open>None\<close> is a call that
  has not ended within that depth. \<open>recursed\<close> is the \<open>Set\<close> of the containers open on
  the current branch; \<open>new Set(recursed).add(value)\<close> is \<open>insert\<close>.
\<close>

fun recurse ::
  "nat \<Rightarrow> runtime \<Rightarrow> (val \<Rightarrow> bool) \<Rightarrow> addr set \<Rightarrow> state \<Rightarrow> val \<Rightarrow> string \<Rightarrow>
   (error + val \<times> state) option" where
  "recurse 0 rt isExtractable recursed st v path = None"
| "recurse (Suc n) rt isExtractable recursed st v path =
     (if isExtractable v then
        Some (Inr (JNull, st\<lparr>files := files_record (files st) v path\<rparr>))
      else if valueIsList rt (heap st) v \<or> valueIsPlainObject (heap st) v then
        (case v of
           JRef a \<Rightarrow>
             let uncloned = (clones st a = None);
                 clone = (case clones st a of Some c \<Rightarrow> c | None \<Rightarrow> length (heap st));
                 st1 = (if uncloned then
                          st\<lparr>heap := heap st @
                                 [if valueIsList rt (heap st) v then ArrayObj []
                                  else PlainObj (instanceof_Object (heap st) a) []],
                             clones := (clones st)(a \<mapsto> clone)\<rparr>
                        else st)
             in
               if a \<notin> recursed then
                 let pathPrefix = (if path \<noteq> [] then path @ ''.'' else []);
                     recursedDeeper = insert a recursed
                 in
                   (case
                      (if valueIsList rt (heap st) v then
                         recurse_items (recurse n rt isExtractable recursedDeeper)
                           uncloned clone pathPrefix 0 (items_of (heap st) a) st1
                       else
                         recurse_props (recurse n rt isExtractable recursedDeeper)
                           uncloned clone pathPrefix (props_of (heap st) a) st1)
                    of None \<Rightarrow> None
                     | Some (Inl e) \<Rightarrow> Some (Inl e)
                     | Some (Inr st2) \<Rightarrow> Some (Inr (JRef clone, st2)))
               else Some (Inr (JRef clone, st1))
         | _ \<Rightarrow> Some (Inr (v, st)))
      else Some (Inr (v, st)))"

text \<open>
  \<open>extractFiles\<close>. \<open>args\<close> is the \<open>arguments\<close> object of the call; a parameter beyond
  its length is \<open>undefined\<close>, and the default \<open>path = ''\<close> replaces an \<open>undefined\<close> third
  parameter. The result is the returned clone with the final state: the \<open>files\<close> of that
  state is the returned \<open>files\<close> map, its \<open>heap\<close> and \<open>protos\<close> are the heap after the call
  (where the clone lives), and its \<open>clones\<close> is the memo the source discards.
\<close>

definition arg :: "val list \<Rightarrow> nat \<Rightarrow> val" where
  "arg args i = (if i < length args then args ! i else JUndefined)"

definition typeof_function :: "heap \<Rightarrow> val \<Rightarrow> bool" where
  "typeof_function h v =
     (case v of JRef a \<Rightarrow> (case heap_get h a of Some FunctionObj \<Rightarrow> True | _ \<Rightarrow> False)
              | _ \<Rightarrow> False)"

definition path_param :: "val list \<Rightarrow> val" where
  "path_param args = (if arg args 2 = JUndefined then JStr [] else arg args 2)"

definition init_state :: "heap \<Rightarrow> state" where
  "init_state h = \<lparr>heap = h, protos = Map.empty, clones = Map.empty, files = []\<rparr>"

definition extractFiles ::
  "nat \<Rightarrow> runtime \<Rightarrow> heap \<Rightarrow> val list \<Rightarrow> (error + val \<times> state) option" where
  "extractFiles n rt h args =
     (if args = [] then
        Some (Inl (TypeError ''Argument 1 `value` is required.''))
      else
        (case arg args 1 of
           JRef f \<Rightarrow>
             if \<not> typeof_function h (JRef f) then
               Some (Inl (TypeError ''Argument 2 `isExtractable` must be a function.''))
             else
               (case path_param args of
                  JStr path \<Rightarrow> recurse n rt (call rt f) {} (init_state h) (arg args 0) path
                | _ \<Rightarrow> Some (Inl (TypeError ''Argument 3 `path` must be a string.'')))
         | _ \<Rightarrow> Some (Inl (TypeError ''Argument 2 `isExtractable` must be a function.''))))"

section \<open>The upload link\<close>









section \<open>The traversal without the prototype setter\<close>







section \<open>Vocabulary of the specification\<close>

text \<open>
  A heap is closed when every reference stored in it points into it, as every reference of
  a running program does; the keys of an object are distinct.
\<close>

definition val_ok :: "heap \<Rightarrow> val \<Rightarrow> bool" where
  "val_ok h v = (case v of JRef a \<Rightarrow> a < length h | _ \<Rightarrow> True)"

definition obj_ok :: "heap \<Rightarrow> obj \<Rightarrow> bool" where
  "obj_ok h ob =
     (case ob of
        ArrayObj xs \<Rightarrow> list_all (val_ok h) xs
      | FileListObj xs \<Rightarrow> list_all (val_ok h) xs
      | PlainObj _ props \<Rightarrow> list_all (val_ok h) (map snd props) \<and> distinct (map fst props)
      | _ \<Rightarrow> True)"

definition heap_ok :: "heap \<Rightarrow> bool" where
  "heap_ok h = list_all (obj_ok h) h"


text \<open>The containers \<open>recurse\<close> clones, and the values it reads from one.\<close>

definition container :: "runtime \<Rightarrow> heap \<Rightarrow> val \<Rightarrow> bool" where
  "container rt h v = (valueIsList rt h v \<or> valueIsPlainObject h v)"

definition children :: "runtime \<Rightarrow> heap \<Rightarrow> addr \<Rightarrow> val list" where
  "children rt h a =
     (if valueIsList rt h (JRef a) then items_of h a else map snd (props_of h a))"

text \<open>
  Names for the pieces of one \<open>recurse\<close> step: the address of the clone of \<open>a\<close> (the
  memoised one, or the next free address), the empty clone, the state after
  \<open>clones.set(value, clone)\<close>, and the prefix of the children's paths.
\<close>

definition clone_addr :: "state \<Rightarrow> addr \<Rightarrow> addr" where
  "clone_addr st a = (case clones st a of Some c \<Rightarrow> c | None \<Rightarrow> length (heap st))"

definition empty_clone :: "runtime \<Rightarrow> heap \<Rightarrow> addr \<Rightarrow> obj" where
  "empty_clone rt h a =
     (if valueIsList rt h (JRef a) then ArrayObj [] else PlainObj (instanceof_Object h a) [])"

definition registered :: "runtime \<Rightarrow> state \<Rightarrow> addr \<Rightarrow> state" where
  "registered rt st a =
     (if clones st a = None then
        st\<lparr>heap := heap st @ [empty_clone rt (heap st) a],
           clones := (clones st)(a \<mapsto> length (heap st))\<rparr>
      else st)"

definition path_prefix :: "string \<Rightarrow> string" where
  "path_prefix path = (if path \<noteq> [] then path @ ''.'' else [])"

text \<open>
  What the clone must be, given the memo \<open>m\<close> from input containers to their clones:
  a file becomes \<open>null\<close>, a container becomes its clone, any other value is itself; the
  clone of a container holds the clones of its children, position by position and key by
  key. \<open>covered\<close> says that the memo knows the container a value refers to.
\<close>

definition clone_val :: "runtime \<Rightarrow> (val \<Rightarrow> bool) \<Rightarrow> heap \<Rightarrow> (addr \<rightharpoonup> addr) \<Rightarrow> val \<Rightarrow> val" where
  "clone_val rt isX h m v =
     (if isX v then JNull
      else if container rt h v then
        (case v of JRef a \<Rightarrow> (case m a of Some c \<Rightarrow> JRef c | None \<Rightarrow> v) | _ \<Rightarrow> v)
      else v)"

definition covered :: "runtime \<Rightarrow> (val \<Rightarrow> bool) \<Rightarrow> heap \<Rightarrow> (addr \<rightharpoonup> addr) \<Rightarrow> val \<Rightarrow> bool" where
  "covered rt isX h m v =
     (isX v \<or> \<not> container rt h v \<or> (case v of JRef a \<Rightarrow> m a \<noteq> None | _ \<Rightarrow> False))"

definition clone_obj :: "runtime \<Rightarrow> (val \<Rightarrow> bool) \<Rightarrow> heap \<Rightarrow> (addr \<rightharpoonup> addr) \<Rightarrow> addr \<Rightarrow> obj" where
  "clone_obj rt isX h m a =
     (if valueIsList rt h (JRef a) then
        ArrayObj (map (clone_val rt isX h m) (items_of h a))
      else
        PlainObj (instanceof_Object h a)
          (map (\<lambda>(k, v). (k, clone_val rt isX h m v)) (props_of h a)))"

text \<open>
  The invariant of the traversal \<open>walk\<close> (and so of \<open>recurse\<close> where the two are the
  same), for the input heap \<open>h\<close> and the containers \<open>R\<close> open on the current branch: the input part of the heap is as it was; the memo maps input
  containers to distinct new objects; every open container is in the memo; and the clone
  of every container that is no longer open is complete.
\<close>

definition extract_inv :: "runtime \<Rightarrow> (val \<Rightarrow> bool) \<Rightarrow> heap \<Rightarrow> addr set \<Rightarrow> state \<Rightarrow> bool" where
  "extract_inv rt isX h R st \<longleftrightarrow>
     length h \<le> length (heap st) \<and>
     (\<forall>a<length h. heap st ! a = h ! a) \<and>
     (\<forall>a c. clones st a = Some c \<longrightarrow>
        a < length h \<and> container rt h (JRef a) \<and> \<not> isX (JRef a) \<and>
        length h \<le> c \<and> c < length (heap st)) \<and>
     inj_on (clones st) (dom (clones st)) \<and>
     R \<subseteq> dom (clones st) \<and>
     (\<forall>a c. clones st a = Some c \<longrightarrow> a \<notin> R \<longrightarrow>
        heap st ! c = clone_obj rt isX h (clones st) a \<and>
        list_all (covered rt isX h (clones st)) (children rt h a))"


section \<open>The argument contract\<close>




definition setter_error :: "error \<Rightarrow> bool" where
  "setter_error e \<longleftrightarrow> e = TypeError ''Cyclic __proto__ value'' \<or> e = Opaque"

section \<open>Example inputs\<close>

text \<open>
  The documented example: \<open>file1\<close> and \<open>file2\<close> at addresses 0 and 1, the array
  \<open>[file1, file2]\<close> at 2, the object \<open>{ a: file1, b: [file1, file2] }\<close> at 3, the classifier
  at 4. The classifier recognises exactly the two files.
\<close>

definition example_heap :: heap where
  "example_heap =
     [FileObj ''1.txt'', FileObj ''2.txt'', ArrayObj [JRef 0, JRef 1],
      PlainObj True [(''a'', JRef 0), (''b'', JRef 2)], FunctionObj]"

definition example_rt :: runtime where
  "example_rt =
     \<lparr>has_File = True, has_Blob = True, has_FileList = True,
      call = (\<lambda>f v. v = JRef 0 \<or> v = JRef 1)\<rparr>"

text \<open>
  An array that contains itself, \<open>const a = []; a.push(a)\<close>, at address 0, and a classifier
  at address 1 that rejects everything.
\<close>

definition cyclic_heap :: heap where
  "cyclic_heap = [ArrayObj [JRef 0], FunctionObj]"

definition reject_rt :: runtime where
  "reject_rt =
     \<lparr>has_File = True, has_Blob = True, has_FileList = True, call = (\<lambda>f v. False)\<rparr>"


section \<open>Reachability\<close>


section \<open>Traversal order\<close>


text \<open>The paths at which \<open>file\<close> occurs, in order; and recording a list of occurrences.\<close>

definition paths_of :: "val \<Rightarrow> (val \<times> string) list \<Rightarrow> string list" where
  "paths_of file evs = map snd (filter (\<lambda>e. fst e = file) evs)"

definition record_all :: "files_map \<Rightarrow> (val \<times> string) list \<Rightarrow> files_map" where
  "record_all fm evs = foldl (\<lambda>fm (file, path). files_record fm file path) fm evs"


section \<open>Deep structural equality\<close>






section \<open>Positions\<close>




section \<open>What a call leaves behind\<close>


section \<open>Inputs with a property named __proto__\<close>








section \<open>One step of walk\<close>


lemma container_JRef: "container rt h v \<Longrightarrow> \<exists>a. v = JRef a"
  by (cases v) (auto simp: container_def valueIsList_def valueIsPlainObject_def)






subsection \<open>The input part of the heap\<close>











subsection \<open>Growing the memo\<close>





subsection \<open>Preserving the invariant\<close>


lemma inv_files [simp]:
  "extract_inv rt isX h R (st\<lparr>files := f\<rparr>) = extract_inv rt isX h R st"
  by (simp add: extract_inv_def)





subsection \<open>The loops\<close>








subsection \<open>One container\<close>









subsection \<open>Returning\<close>








section \<open>The final state of the traversal\<close>



lemma reject_rt_call [simp]: "call reject_rt f v = False"
  by (simp add: reject_rt_def)

lemma cyclic_heap_facts:
  "heap_ok cyclic_heap" "val_ok cyclic_heap (JRef 0)" "typeof_function cyclic_heap (JRef 1)"
  "length cyclic_heap < 3" "container reject_rt cyclic_heap (JRef 0)"
  "children reject_rt cyclic_heap 0 = [JRef 0]"
  by (simp_all add: cyclic_heap_def heap_ok_def obj_ok_def val_ok_def typeof_function_def
        heap_get_def container_def valueIsList_def children_def items_of_def)




section \<open>The files map\<close>







lemma record_all_Nil [simp]: "record_all fm [] = fm"
  by (simp add: record_all_def)

lemma record_all_Cons [simp]:
  "record_all fm ((file, path) # evs) = record_all (files_record fm file path) evs"
  by (simp add: record_all_def)

lemma record_all_append [simp]:
  "record_all fm (xs @ ys) = record_all (record_all fm xs) ys"
  by (simp add: record_all_def)




lemma registered_files [simp]: "files (registered rt st a) = files st"
  by (simp add: registered_def)


subsection \<open>Recording occurrences\<close>


lemma paths_of_simps [simp]:
  "paths_of x [] = []"
  "paths_of x ((file, p) # evs) = (if file = x then p # paths_of x evs else paths_of x evs)"
  "paths_of x (evs @ evs') = paths_of x evs @ paths_of x evs'"
  by (simp_all add: paths_of_def)







section \<open>Inputs without files\<close>









section \<open>The multipart body\<close>










section \<open>One step of recurse\<close>

declare recurse.simps [simp del]

lemma recurse_file:
  "isX v \<Longrightarrow>
   recurse (Suc n) rt isX R st v p = Some (Inr (JNull, st\<lparr>files := files_record (files st) v p\<rparr>))"
  by (simp add: recurse.simps)

lemma recurse_leaf:
  "\<not> isX v \<Longrightarrow> \<not> container rt (heap st) v \<Longrightarrow> recurse (Suc n) rt isX R st v p = Some (Inr (v, st))"
  by (simp add: recurse.simps container_def)

lemma recurse_open:
  "\<not> isX (JRef a) \<Longrightarrow> container rt (heap st) (JRef a) \<Longrightarrow> a \<in> R \<Longrightarrow>
   recurse (Suc n) rt isX R st (JRef a) p =
     Some (Inr (JRef (clone_addr st a), registered rt st a))"
  by (simp add: recurse.simps container_def clone_addr_def registered_def empty_clone_def Let_def)

lemma recurse_list:
  "\<not> isX (JRef a) \<Longrightarrow> valueIsList rt (heap st) (JRef a) \<Longrightarrow> a \<notin> R \<Longrightarrow>
   recurse (Suc n) rt isX R st (JRef a) p =
     map_option (map_sum id (Pair (JRef (clone_addr st a))))
       (recurse_items (recurse n rt isX (insert a R)) (clones st a = None) (clone_addr st a)
          (path_prefix p) 0 (items_of (heap st) a) (registered rt st a))"
  by (simp add: recurse.simps container_def clone_addr_def registered_def empty_clone_def Let_def
        path_prefix_def split: option.splits sum.splits)

lemma recurse_object:
  "\<not> isX (JRef a) \<Longrightarrow> \<not> valueIsList rt (heap st) (JRef a) \<Longrightarrow>
   valueIsPlainObject (heap st) (JRef a) \<Longrightarrow> a \<notin> R \<Longrightarrow>
   recurse (Suc n) rt isX R st (JRef a) p =
     map_option (map_sum id (Pair (JRef (clone_addr st a))))
       (recurse_props (recurse n rt isX (insert a R)) (clones st a = None) (clone_addr st a)
          (path_prefix p) (props_of (heap st) a) (registered rt st a))"
  by (simp add: recurse.simps container_def clone_addr_def registered_def empty_clone_def Let_def
        path_prefix_def split: option.splits sum.splits)

section \<open>recurse follows walk\<close>















section \<open>Without the prototype setter, recurse is walk\<close>





















section \<open>The errors of the traversal\<close>

lemma proto_setter_Inl: "proto_setter s c v = Inl e \<Longrightarrow> setter_error e"
  by (auto simp: proto_setter_def setter_error_def split: val.splits if_splits)

lemma object_set_Inl: "object_set s c k v = Inl e \<Longrightarrow> setter_error e"
  by (auto simp: object_set_def setter_error_def split: option.splits obj.splits slot.splits
        dest: proto_setter_Inl)

lemma recurse_items_errors:
  assumes "\<And>st v p e. rec st v p = Some (Inl e) \<Longrightarrow> setter_error e"
  shows "recurse_items rec u c pfx i items st = Some (Inl e) \<Longrightarrow> setter_error e"
  by (induction items arbitrary: i st) (auto split: option.splits sum.splits dest: assms)

lemma recurse_props_errors:
  assumes "\<And>st v p e. rec st v p = Some (Inl e) \<Longrightarrow> setter_error e"
  shows "recurse_props rec u c pfx props st = Some (Inl e) \<Longrightarrow> setter_error e"
  by (induction props arbitrary: st)
     (auto split: option.splits sum.splits if_splits, (blast intro: assms object_set_Inl)+)

lemma recurse_errors:
  "recurse n rt isX R st v p = Some (Inl e) \<Longrightarrow> setter_error e"
proof (induction n arbitrary: R st v p e)
  case 0
  then show ?case by (simp add: recurse.simps)
next
  case (Suc n)
  have items: "setter_error e'"
    if "recurse_items (recurse n rt isX R') u c pfx i items st' = Some (Inl e')"
    for R' u c pfx i items st' e'
    using that by (rule recurse_items_errors [rotated]) (rule Suc.IH)
  have props: "setter_error e'"
    if "recurse_props (recurse n rt isX R') u c pfx ps st' = Some (Inl e')"
    for R' u c pfx ps st' e'
    using that by (rule recurse_props_errors [rotated]) (rule Suc.IH)
  from Suc.prems show ?case
    by (auto simp: recurse.simps Let_def split: if_splits val.splits option.splits sum.splits
          dest: items props)
qed

section \<open>A larger depth bound\<close>

lemma recurse_items_mono:
  assumes "\<And>st v p r. rec st v p = Some r \<Longrightarrow> rec' st v p = Some r"
  shows "recurse_items rec u c pfx i items st = Some s \<Longrightarrow>
         recurse_items rec' u c pfx i items st = Some s"
  by (induction items arbitrary: i st) (auto split: option.splits sum.splits simp: assms)

lemma recurse_props_mono:
  assumes "\<And>st v p r. rec st v p = Some r \<Longrightarrow> rec' st v p = Some r"
  shows "recurse_props rec u c pfx props st = Some s \<Longrightarrow>
         recurse_props rec' u c pfx props st = Some s"
  by (induction props arbitrary: st) (auto split: option.splits sum.splits simp: assms)

lemma recurse_Suc_mono:
  "recurse n rt isX R st v p = Some r \<Longrightarrow> recurse (Suc n) rt isX R st v p = Some r"
proof (induction n arbitrary: R st v p r)
  case 0
  then show ?case by (simp add: recurse.simps)
next
  case (Suc n)
  show ?case
  proof (cases "isX v")
    case True
    with Suc.prems show ?thesis by (simp add: recurse_file)
  next
    case nf: False
    show ?thesis
    proof (cases "container rt (heap st) v")
      case False
      with nf Suc.prems show ?thesis by (simp add: recurse_leaf)
    next
      case True
      then obtain a where v: "v = JRef a" using container_JRef by blast
      show ?thesis
      proof (cases "a \<in> R")
        case True
        with nf \<open>container rt (heap st) v\<close> Suc.prems show ?thesis
          unfolding v by (simp add: recurse_open)
      next
        case nr: False
        show ?thesis
        proof (cases "valueIsList rt (heap st) (JRef a)")
          case True
          with nf nr Suc.prems show ?thesis
            unfolding v by (auto simp: recurse_list intro: recurse_items_mono [OF Suc.IH])
        next
          case False
          with True have "valueIsPlainObject (heap st) (JRef a)"
            by (simp add: container_def v)
          with False nf nr Suc.prems show ?thesis
            unfolding v by (auto simp: recurse_object intro: recurse_props_mono [OF Suc.IH])
        qed
      qed
    qed
  qed
qed

lemma recurse_fuel_mono:
  "recurse n rt isX R st v p = Some r \<Longrightarrow> recurse (n + k) rt isX R st v p = Some r"
  by (induction k) (auto dest: recurse_Suc_mono)

section \<open>The whole call\<close>


lemma extractFiles_fuel_mono:
  "extractFiles n rt h args = Some r \<Longrightarrow> extractFiles (n + k) rt h args = Some r"
  by (auto simp: extractFiles_def split: if_splits val.splits
        dest: recurse_fuel_mono [where k = k])









lemma example_run:
  "case extractFiles 3 example_rt example_heap [JRef 3, JRef 4, JStr ''''] of
     Some (Inr (c, st)) \<Rightarrow>
       c = JRef 5 \<and>
       heap st = example_heap @
         [PlainObj True [(''a'', JNull), (''b'', JRef 6)], ArrayObj [JNull, JNull]] \<and>
       files st = [(JRef 0, [''a'', ''b.0'']), (JRef 1, [''b.1''])]
   | _ \<Rightarrow> False"
  by code_simp

section \<open>Positions in the clone\<close>







section \<open>The final state of a call\<close>




section \<open>The claims\<close>




text \<open>
  Claim C1. For the input \<open>{ a: file1, b: [file1, file2] }\<close> with the prefix \<open>''\<close> and a
  classifier that recognises exactly \<open>file1\<close> and \<open>file2\<close>, \<open>extractFiles\<close> returns
  the clone \<open>{ a: null, b: [null, null] }\<close> (the new object at address 5, whose \<open>b\<close> is
  the new array at address 6) and a files map with exactly two entries in first-seen
  order: \<open>file1\<close> with the paths \<open>a\<close> and \<open>b.0\<close>, \<open>file2\<close> with the path \<open>b.1\<close>; no
  path starts with a separator. This holds for every depth bound from 3 on.
\<close>

theorem extractFiles_example:
  "\<exists>st. extractFiles (3 + k) example_rt example_heap [JRef 3, JRef 4, JStr ''''] =
          Some (Inr (JRef 5, st)) \<and>
        heap st = example_heap @
          [PlainObj True [(''a'', JNull), (''b'', JRef 6)], ArrayObj [JNull, JNull]] \<and>
        files st = [(JRef 0, [''a'', ''b.0'']), (JRef 1, [''b.1''])]"
proof -
  from example_run obtain st where
    "extractFiles 3 example_rt example_heap [JRef 3, JRef 4, JStr ''''] = Some (Inr (JRef 5, st))"
    and st: "heap st = example_heap @
          [PlainObj True [(''a'', JNull), (''b'', JRef 6)], ArrayObj [JNull, JNull]]"
      "files st = [(JRef 0, [''a'', ''b.0'']), (JRef 1, [''b.1''])]"
    by (auto split: option.splits sum.splits)
  from extractFiles_fuel_mono [OF this(1), of k] st show ?thesis by blast
qed



















text \<open>
  Claim C9. With \<open>undefined\<close> or \<open>null\<close> passed as the value, a function as classifier that
  rejects it and a string prefix, \<open>extractFiles\<close> does not raise: it returns the passed
  value itself as the clone, an empty files map, and leaves the heap as it was. The error
  \<open>Argument 1 `value` is required\<close> is the result exactly when there is no argument at all.
\<close>

theorem extractFiles_undefined_value:
  assumes "typeof_function h (JRef f)" "\<not> call rt f v" "v = JUndefined \<or> v = JNull"
  shows "extractFiles (Suc n) rt h [v, JRef f, JStr p] = Some (Inr (v, init_state h)) \<and>
         (\<forall>args k. (extractFiles k rt h args =
                      Some (Inl (TypeError ''Argument 1 `value` is required.''))) = (args = []))"
proof
  have "\<not> container rt (heap (init_state h)) v"
    using assms(3) by (auto simp: container_def valueIsList_def valueIsPlainObject_def)
  with assms(2)
  have "recurse (Suc n) rt (call rt f) {} (init_state h) v p = Some (Inr (v, init_state h))"
    by (simp add: recurse_leaf)
  with assms(1) show "extractFiles (Suc n) rt h [v, JRef f, JStr p] = Some (Inr (v, init_state h))"
    by (simp add: extractFiles_def arg_def path_param_def)
  have "\<not> setter_error (TypeError ''Argument 1 `value` is required.'')"
    by (simp add: setter_error_def)
  then show "\<forall>args k. (extractFiles k rt h args =
                      Some (Inl (TypeError ''Argument 1 `value` is required.''))) = (args = [])"
    by (auto simp: extractFiles_def split: val.splits dest: recurse_errors)
qed

theorem extractFiles_undefined_value_witness:
  "extractFiles 1 reject_rt cyclic_heap [JUndefined, JRef 1, JStr ''''] =
     Some (Inr (JUndefined, init_state cyclic_heap)) \<and>
   extractFiles 1 reject_rt cyclic_heap [] =
     Some (Inl (TypeError ''Argument 1 `value` is required.''))"
proof -
  have "\<not> call reject_rt 1 JUndefined" by simp
  from extractFiles_undefined_value [OF cyclic_heap_facts(3) this, of 0 "''''"] show ?thesis
    by simp
qed




end
